theory Spec2Isabelle
  imports Main
begin

section \<open>Strings\<close>

text \<open>
  A Go string is a sequence of bytes; so is a HOL \<^typ>\<open>string\<close>.  The functions of
  package \<^verbatim>\<open>strings\<close> that the program calls are written out here for the
  arguments the program passes (a one-byte separator for \<^verbatim>\<open>Split\<close>).
\<close>

definition HasPrefix :: "string \<Rightarrow> string \<Rightarrow> bool" where
  "HasPrefix s pre = (take (length pre) s = pre)"

definition TrimPrefix :: "string \<Rightarrow> string \<Rightarrow> string" where
  "TrimPrefix s pre = (if HasPrefix s pre then drop (length pre) s else s)"

definition HasSuffix :: "string \<Rightarrow> string \<Rightarrow> bool" where
  "HasSuffix s suf = (length suf \<le> length s \<and> drop (length s - length suf) s = suf)"

definition TrimSuffix :: "string \<Rightarrow> string \<Rightarrow> string" where
  "TrimSuffix s suf = (if HasSuffix s suf then take (length s - length suf) s else s)"

text \<open>
  \<^verbatim>\<open>strings.Split(s, sep)\<close> for a separator of one byte: one more piece than
  there are separators.  \<open>splitPieces\<close> gives the first piece and the pieces after it.
\<close>

fun splitPieces :: "char \<Rightarrow> string \<Rightarrow> string \<times> string list" where
  "splitPieces sep [] = ([], [])"
| "splitPieces sep (c # cs) =
     (case splitPieces sep cs of
        (piece, pieces) \<Rightarrow> if c = sep then ([], piece # pieces) else (c # piece, pieces))"

definition Split :: "char \<Rightarrow> string \<Rightarrow> string list" where
  "Split sep s = (case splitPieces sep s of (piece, pieces) \<Rightarrow> piece # pieces)"

text \<open>\<^verbatim>\<open>strings.Join(lines, "\n")\<close>.\<close>

fun Join :: "string list \<Rightarrow> string" where
  "Join [] = []"
| "Join [l] = l"
| "Join (l # m # ls) = l @ CHR 0x0A # Join (m # ls)"

text \<open>
  \<^verbatim>\<open>strings.TrimSpace\<close> removes the leading and trailing white space of Unicode:
  the six ASCII bytes, and the UTF-8 encodings of U+0085, U+00A0, U+1680, U+2000 to
  U+200A, U+2028, U+2029, U+202F, U+205F and U+3000.
\<close>

definition asciiSpace :: "char \<Rightarrow> bool" where
  "asciiSpace c = (c = CHR 0x09 \<or> c = CHR 0x0A \<or> c = CHR 0x0B \<or> c = CHR 0x0C
                   \<or> c = CHR 0x0D \<or> c = CHR 0x20)"

definition unicodeSpaces :: "string list" where
  "unicodeSpaces =
     [[CHR 0xC2, CHR 0x85], [CHR 0xC2, CHR 0xA0], [CHR 0xE1, CHR 0x9A, CHR 0x80],
      [CHR 0xE2, CHR 0x80, CHR 0x80], [CHR 0xE2, CHR 0x80, CHR 0x81],
      [CHR 0xE2, CHR 0x80, CHR 0x82], [CHR 0xE2, CHR 0x80, CHR 0x83],
      [CHR 0xE2, CHR 0x80, CHR 0x84], [CHR 0xE2, CHR 0x80, CHR 0x85],
      [CHR 0xE2, CHR 0x80, CHR 0x86], [CHR 0xE2, CHR 0x80, CHR 0x87],
      [CHR 0xE2, CHR 0x80, CHR 0x88], [CHR 0xE2, CHR 0x80, CHR 0x89],
      [CHR 0xE2, CHR 0x80, CHR 0x8A], [CHR 0xE2, CHR 0x80, CHR 0xA8],
      [CHR 0xE2, CHR 0x80, CHR 0xA9], [CHR 0xE2, CHR 0x80, CHR 0xAF],
      [CHR 0xE2, CHR 0x81, CHR 0x9F], [CHR 0xE3, CHR 0x80, CHR 0x80]]"

fun dropSpaces :: "string list \<Rightarrow> string \<Rightarrow> string" where
  "dropSpaces us [] = []"
| "dropSpaces us (c # cs) =
     (if asciiSpace c then dropSpaces us cs
      else (case find (HasPrefix (c # cs)) us of
              None \<Rightarrow> c # cs
            | Some u \<Rightarrow> dropSpaces us (drop (length u - 1) cs)))"

definition TrimSpace :: "string \<Rightarrow> string" where
  "TrimSpace s =
     rev (dropSpaces (map rev unicodeSpaces) (rev (dropSpaces unicodeSpaces s)))"

section \<open>The Markdown renderer\<close>

text \<open>
  \<^verbatim>\<open>MarkdownParser\<close> of \<^verbatim>\<open>main.go\<close>.  The later revision of the file adds the field
  \<^verbatim>\<open>partialMode\<close>, which \<^verbatim>\<open>renderInternal\<close> assigns once from its argument before
  anything reads it; the model passes that argument along instead.
\<close>

record MarkdownParser =
  inBold :: bool
  inItalic :: bool
  inCode :: bool
  inQuote :: bool
  inList :: bool
  buf :: string

definition NewMarkdownParser :: MarkdownParser where
  "NewMarkdownParser = \<lparr>inBold = False, inItalic = False, inCode = False,
                         inQuote = False, inList = False, buf = []\<rparr>"

definition Reset :: "MarkdownParser \<Rightarrow> MarkdownParser" where
  "Reset p = p\<lparr>inBold := False, inItalic := False, inCode := False,
               inQuote := False, inList := False, buf := []\<rparr>"

text \<open>
  The loop of \<^verbatim>\<open>markdownLine\<close>.  The arguments are \<^verbatim>\<open>partialMode\<close>, the byte
  \<^verbatim>\<open>line[i-1]\<close> (none at \<^verbatim>\<open>i = 0\<close>), the rest \<^verbatim>\<open>line[i:]\<close>, and the triple of
  \<^verbatim>\<open>p.inCode\<close>, \<^verbatim>\<open>active\<close> and the buffer.  The \<^verbatim>\<open>i++\<close> inside a case steps over
  one more byte, which is still the \<^verbatim>\<open>line[i-1]\<close> of the byte after it.
  In \<^verbatim>\<open>main.go\<close> the backtick case has no \<^verbatim>\<open>partialMode\<close> conjunct: it is the loop
  at \<^verbatim>\<open>partialMode = False\<close>.
\<close>

fun scanLine :: "bool \<Rightarrow> char option \<Rightarrow> string \<Rightarrow> bool \<times> bool \<times> string
                   \<Rightarrow> bool \<times> bool \<times> string" where
  "scanLine pm prev [] st = st"
| "scanLine pm prev (c # cs) (code, active, b) =
     (if prev = Some (CHR 0x5C) then scanLine pm (Some c) cs (code, active, b)
      else if HasPrefix (c # cs) ''**'' \<and> \<not> code then
        scanLine pm (Some CHR ''*'') (tl cs)
          (code, \<not> active, b @ (if active then ''[::-][white]'' else ''[::b][white]''))
      else if HasPrefix (c # cs) ''__'' \<and> \<not> code then
        scanLine pm (Some CHR ''_'') (tl cs)
          (code, \<not> active, b @ (if active then ''[::-][white]'' else ''[::u][white]''))
      else if c = CHR ''*'' \<and> \<not> code then
        scanLine pm (Some c) cs
          (code, \<not> active, b @ (if active then ''[::-][white]'' else ''[::i][white]''))
      else if c = CHR ''_'' \<and> \<not> code then
        scanLine pm (Some c) cs
          (code, \<not> active, b @ (if active then ''[::-][white]'' else ''[::i][white]''))
      else if c = CHR 0x60 \<and> \<not> code \<and> \<not> pm then
        (case cs of
           [] \<Rightarrow> (if \<not> code then (True, \<not> active, b @ ''[::r]'')
                  else (False, \<not> active, b @ ''[::-][white]''))
         | d # ds \<Rightarrow>
             scanLine pm (Some d) ds
               (if \<not> code then (True, \<not> active, b @ ''[::r]'')
                else (False, \<not> active, b @ ''[::-][white]'')))
      else scanLine pm (Some c) cs (code, active, b @ [c]))"

definition markdownLine :: "bool \<Rightarrow> MarkdownParser \<Rightarrow> string \<Rightarrow> MarkdownParser" where
  "markdownLine pm p line =
     (case scanLine pm None line (inCode p, False, []) of
        (code, active, b) \<Rightarrow>
          p\<lparr>inCode := code, buf := b @ (if active then ''[::-]'' else [])\<rparr>)"

text \<open>
  \<^verbatim>\<open>filteredString\<close> is \<^verbatim>\<open>strings.Map\<close> with \<^verbatim>\<open>unicode.IsPrint\<close>: it decodes
  UTF-8 and consults the Unicode tables of the standard library.  The renderer takes it
  as the parameter \<open>filt\<close>.  On ASCII text it removes the control bytes, which is
  \<open>filteredASCII\<close>; the examples below are ASCII and are evaluated with it.
\<close>

definition filteredASCII :: "string \<Rightarrow> string" where
  "filteredASCII s = filter (\<lambda>c. 0x20 \<le> (of_char c :: nat) \<and> (of_char c :: nat) < 0x7F) s"

definition newline :: string where
  "newline = [CHR 0x0A]"

text \<open>The quote bar is U+2502 and the bullet U+2022, as their UTF-8 bytes.\<close>

definition quoteBar :: string where
  "quoteBar = ''[darkcyan]'' @ [CHR 0xE2, CHR 0x94, CHR 0x82] @ '' [::-]''"

definition bullet :: string where
  "bullet = '' '' @ [CHR 0xE2, CHR 0x80, CHR 0xA2] @ '' ''"

text \<open>The cells of a table row: \<^verbatim>\<open>fmt.Fprintf(p.buf, "[::b]%s[::-] ", cell)\<close> for each
  piece between bars that is not empty once trimmed.\<close>

definition tableRow :: "string \<Rightarrow> string" where
  "tableRow trimmed =
     concat (map (\<lambda>cell. ''[::b]'' @ cell @ ''[::-] '')
               (filter (\<lambda>cell. cell \<noteq> []) (map TrimSpace (Split CHR ''|'' trimmed))))"

text \<open>
  The body of the loop over the lines, from the test for a code fence on; \<open>prev\<close> is
  \<^verbatim>\<open>lines[i-1]\<close>, none at \<^verbatim>\<open>i = 0\<close>.  The two revisions agree on it (the later one
  joins the two list cases with \<^verbatim>\<open>||\<close>).
\<close>

definition renderLine :: "(string \<Rightarrow> string) \<Rightarrow> bool \<Rightarrow> string option \<Rightarrow> string
    \<Rightarrow> MarkdownParser \<times> string \<Rightarrow> MarkdownParser \<times> string" where
  "renderLine filt pm prev line st =
     (case st of (p, out) \<Rightarrow>
      (let trimmed = TrimSpace line in
       if HasPrefix trimmed ''```'' then (p, out)
       else if HasPrefix trimmed ''|'' \<and> CHR ''|'' \<in> set trimmed then
         (case prev of
            None \<Rightarrow> (p, out)
          | Some pl \<Rightarrow>
              if HasPrefix (TrimSpace pl) ''|''
              then (p\<lparr>buf := tableRow trimmed\<rparr>, out @ tableRow trimmed @ newline)
              else (p, out))
       else if HasPrefix trimmed ''> '' then
         (let p1 = (if \<not> inQuote p then p\<lparr>buf := buf p @ quoteBar, inQuote := True\<rparr> else p);
              p2 = markdownLine pm p1 (filt (drop 2 trimmed))
          in (p2, out @ buf p2 @ newline))
       else if HasPrefix trimmed ''- '' then
         (let p1 = (if \<not> inList p then p\<lparr>buf := buf p @ bullet, inList := True\<rparr> else p);
              p2 = markdownLine pm p1 (filt (drop 2 trimmed))
          in (p2, out @ buf p2 @ newline))
       else if HasPrefix trimmed ''* '' then
         (let p1 = (if \<not> inList p then p\<lparr>buf := buf p @ bullet, inList := True\<rparr> else p);
              p2 = markdownLine pm p1 (filt (drop 2 trimmed))
          in (p2, out @ buf p2 @ newline))
       else if trimmed = [] then
         (let p1 = (if inList p then p\<lparr>inList := False\<rparr> else p);
              p2 = (if inQuote p1 then p1\<lparr>inQuote := False\<rparr> else p1)
          in (p2, out @ newline))
       else
         (let p1 = markdownLine pm p (filt line) in (p1, out @ buf p1 @ newline))))"

text \<open>
  The loop over the lines, with the parser, the output and \<^verbatim>\<open>prevLineEmpty\<close> as its
  state.  The two revisions differ in the test that skips a line:
  \<^verbatim>\<open>lineEmpty && prevLineEmpty\<close> in \<^verbatim>\<open>main.go\<close>, and the same with \<^verbatim>\<open>&& partial\<close>
  in \<^verbatim>\<open>renderInternal\<close>.  The flag \<open>skipping\<close> is that last conjunct.
\<close>

fun renderLines :: "bool \<Rightarrow> bool \<Rightarrow> (string \<Rightarrow> string) \<Rightarrow> string option \<Rightarrow> string list
    \<Rightarrow> MarkdownParser \<times> string \<times> bool \<Rightarrow> MarkdownParser \<times> string \<times> bool" where
  "renderLines skipping pm filt prev [] st = st"
| "renderLines skipping pm filt prev (line # rest) (p, out, prevLineEmpty) =
     (if TrimSpace line = [] \<and> prevLineEmpty \<and> skipping
      then renderLines skipping pm filt (Some line) rest (p, out, prevLineEmpty)
      else (case renderLine filt pm prev line (p, out) of
              (p', out') \<Rightarrow>
                renderLines skipping pm filt (Some line) rest (p', out', TrimSpace line = [])))"

text \<open>\<^verbatim>\<open>RenderMarkdown\<close> of \<^verbatim>\<open>main.go\<close>: the output, and the parser it leaves behind.\<close>

definition RenderMarkdown :: "(string \<Rightarrow> string) \<Rightarrow> MarkdownParser \<Rightarrow> string
    \<Rightarrow> string \<times> MarkdownParser" where
  "RenderMarkdown filt p text =
     (case renderLines True False filt None (Split (CHR 0x0A) text) (Reset p, [], True) of
        (p', out, e) \<Rightarrow> (out, p'))"

text \<open>\<^verbatim>\<open>renderInternal\<close> of the later revision, and \<^verbatim>\<open>RenderPartial\<close>, which calls it
  with \<^verbatim>\<open>partial = true\<close>.\<close>

definition renderInternal :: "(string \<Rightarrow> string) \<Rightarrow> MarkdownParser \<Rightarrow> string \<Rightarrow> bool
    \<Rightarrow> string \<times> MarkdownParser" where
  "renderInternal filt p text partial =
     (case renderLines partial partial filt None (Split (CHR 0x0A) text) (Reset p, [], True) of
        (p', out, e) \<Rightarrow> (out, p'))"

definition RenderPartial :: "(string \<Rightarrow> string) \<Rightarrow> MarkdownParser \<Rightarrow> string
    \<Rightarrow> string \<times> MarkdownParser" where
  "RenderPartial filt p text = renderInternal filt p text True"

section \<open>The turn\<close>

record Message =
  Role :: string
  Content :: string

text \<open>\<^verbatim>\<open>CompletionResponse\<close>: a choice has the one field \<^verbatim>\<open>Delta.Content\<close>, and stands
  here as that string.\<close>

record CompletionResponse =
  Choices :: "string list"

text \<open>
  What the loop of \<^verbatim>\<open>handleInput\<close> makes of one line that \<^verbatim>\<open>ReadString\<close> returned.
  \<^verbatim>\<open>json.Unmarshal\<close> is the standard library's and is the parameter \<open>unmarshal\<close>: the
  text of the error, or the chunk.
\<close>

datatype event = Skipped | Done | ParseError string | ContentDelta string

definition classify :: "(string \<Rightarrow> string + CompletionResponse) \<Rightarrow> string \<Rightarrow> event" where
  "classify unmarshal line =
     (if TrimSpace line = [] \<or> HasPrefix line '':'' then Skipped
      else if HasPrefix line ''data:'' then
        (let jsonStr = TrimSpace (TrimPrefix line ''data:'') in
         if jsonStr = ''[DONE]'' then Done
         else (case unmarshal jsonStr of
                 Inl err \<Rightarrow> ParseError err
               | Inr chunk \<Rightarrow>
                   (case Choices chunk of
                      [] \<Rightarrow> Skipped
                    | content # others \<Rightarrow> if content \<noteq> [] then ContentDelta content else Skipped)))
      else Skipped)"

text \<open>
  The functions that the network task hands to \<^verbatim>\<open>QueueUpdateDraw\<close>, in the order it
  hands them over: the update for a delta, \<^verbatim>\<open>appendSystemError\<close>, and the final
  update.  \<open>StopLoadingCall\<close> is the call of \<^verbatim>\<open>StopLoading\<close> that the task makes itself
  when the response is empty.
\<close>

datatype update = DeltaUpdate string | SystemErrorUpdate string | FinalUpdate string
  | StopLoadingCall

datatype read_end = EOF | ReadError string

text \<open>
  The loop over the lines that \<^verbatim>\<open>ReadString\<close> returned without an error, each with
  its newline, with \<^verbatim>\<open>ui.assistantText\<close> and the updates handed over so far;
  \<open>ending\<close> is the error that ends the reading.  What \<^verbatim>\<open>ReadString\<close> returns together
  with that error, a last line without a newline, is not looked at by the loop.
\<close>

fun streamLoop :: "(string \<Rightarrow> string + CompletionResponse) \<Rightarrow> string list \<Rightarrow> read_end
    \<Rightarrow> string \<times> update list \<Rightarrow> string \<times> update list" where
  "streamLoop unmarshal [] ending (acc, q) =
     (case ending of
        EOF \<Rightarrow> (acc, q)
      | ReadError err \<Rightarrow> (acc, q @ [SystemErrorUpdate (''Stream read error: '' @ err)]))"
| "streamLoop unmarshal (line # rest) ending (acc, q) =
     (case classify unmarshal line of
        Skipped \<Rightarrow> streamLoop unmarshal rest ending (acc, q)
      | Done \<Rightarrow> (acc, q)
      | ParseError err \<Rightarrow>
          streamLoop unmarshal rest ending
            (acc, q @ [SystemErrorUpdate (''JSON parse error: '' @ err)])
      | ContentDelta delta \<Rightarrow>
          streamLoop unmarshal rest ending (acc @ delta, q @ [DeltaUpdate delta]))"

text \<open>The end of the task, after the loop: \<^verbatim>\<open>finalResponse\<close> is the accumulator.\<close>

definition endOfStream :: "string \<Rightarrow> update list" where
  "endOfStream finalResponse =
     (if finalResponse \<noteq> [] then [FinalUpdate finalResponse]
      else [StopLoadingCall, SystemErrorUpdate ''Received empty response from assistant''])"

definition streamTask :: "(string \<Rightarrow> string + CompletionResponse) \<Rightarrow> string list \<Rightarrow> read_end
    \<Rightarrow> string \<times> update list" where
  "streamTask unmarshal lines ending =
     (case streamLoop unmarshal lines ending ([], []) of
        (acc, q) \<Rightarrow> (acc, q @ endOfStream acc))"

text \<open>The content deltas of a stream: those before the sentinel.\<close>

fun contentDeltas :: "event list \<Rightarrow> string list" where
  "contentDeltas [] = []"
| "contentDeltas (Done # evs) = []"
| "contentDeltas (ContentDelta delta # evs) = delta # contentDeltas evs"
| "contentDeltas (ev # evs) = contentDeltas evs"

text \<open>
  \<^verbatim>\<open>ChatUI\<close>, with the text of the \<^verbatim>\<open>chatHistory\<close> view for the view, and the
  \<^verbatim>\<open>SetDisabled\<close> state of the input field.  The view is the library's:
  \<^verbatim>\<open>Fprintf\<close> appends to its text, \<^verbatim>\<open>SetText\<close> replaces it, and \<^verbatim>\<open>GetText(true)\<close>
  returns it without its style tags, which is the parameter \<open>getText\<close>.
\<close>

record ChatUI =
  messages :: "Message list"
  chatHistory :: string
  assistantText :: string
  loadingActive :: bool
  inputDisabled :: bool
  markdownParser :: MarkdownParser

definition AddMessage :: "string \<Rightarrow> string \<Rightarrow> ChatUI \<Rightarrow> ChatUI" where
  "AddMessage role content ui =
     ui\<lparr>messages := messages ui @ [\<lparr>Role = role, Content = content\<rparr>]\<rparr>"

definition assistantPrefix :: string where
  "assistantPrefix = ''[blue]Assistant:[-] [yellow]''"

definition AppendToChatPlain :: "string \<Rightarrow> string \<Rightarrow> ChatUI \<Rightarrow> ChatUI" where
  "AppendToChatPlain role text ui =
     ui\<lparr>chatHistory := chatHistory ui @ assistantPrefix @ text\<rparr>"

definition AppendToChat :: "(string \<Rightarrow> string) \<Rightarrow> string \<Rightarrow> string \<Rightarrow> ChatUI \<Rightarrow> ChatUI" where
  "AppendToChat filt role text ui =
     (if role = ''You'' then
        ui\<lparr>chatHistory := chatHistory ui @ ''[purple]You:[-] [white]'' @ filt text @ newline\<rparr>
      else if role = ''Assistant'' then
        (case RenderMarkdown filt (markdownParser ui) text of
           (formatted, p) \<Rightarrow>
             ui\<lparr>chatHistory := chatHistory ui @ ''[blue]Assistant:[-] '' @ formatted @ newline,
                markdownParser := p\<rparr>)
      else if role = ''System'' then
        ui\<lparr>chatHistory := chatHistory ui @ ''[red]System:[-] [red]'' @ text @ newline\<rparr>
      else ui)"

definition StartLoading :: "ChatUI \<Rightarrow> ChatUI" where
  "StartLoading ui = ui\<lparr>loadingActive := True, inputDisabled := True, assistantText := []\<rparr>"

definition StopLoading :: "ChatUI \<Rightarrow> ChatUI" where
  "StopLoading ui = ui\<lparr>loadingActive := False, inputDisabled := False\<rparr>"

text \<open>
  \<^verbatim>\<open>appendDelta\<close>, from the text that \<^verbatim>\<open>GetText(true)\<close> returned and the accumulator
  to the text it passes to \<^verbatim>\<open>SetText\<close>.  \<^verbatim>\<open>Split\<close> never returns an empty slice, so
  the last line is always removed.  The function does not use its argument \<^verbatim>\<open>delta\<close>.
\<close>

definition appendDeltaText :: "string \<Rightarrow> string \<Rightarrow> string" where
  "appendDeltaText currentText acc =
     (let lines = butlast (Split (CHR 0x0A) currentText);
          newText = Join lines
      in (if newText \<noteq> [] then newText @ newline else newText) @ assistantPrefix @ acc)"

definition appendDelta :: "(string \<Rightarrow> string) \<Rightarrow> string \<Rightarrow> ChatUI \<Rightarrow> ChatUI" where
  "appendDelta getText delta ui =
     ui\<lparr>chatHistory := appendDeltaText (getText (chatHistory ui)) (assistantText ui)\<rparr>"

definition finalizeAssistantMessage :: "(string \<Rightarrow> string) \<Rightarrow> (string \<Rightarrow> string) \<Rightarrow> ChatUI
    \<Rightarrow> ChatUI" where
  "finalizeAssistantMessage filt getText ui =
     (case RenderMarkdown filt (markdownParser ui) (assistantText ui) of
        (formatted, p) \<Rightarrow>
          ui\<lparr>chatHistory :=
               Join (butlast (Split (CHR 0x0A) (getText (chatHistory ui)))
                     @ [''[blue]Assistant:[-] '' @ formatted]),
             markdownParser := p\<rparr>)"

text \<open>Running one update on the display; \<open>isFirst\<close> is the variable of that name that the
  update for a delta shares with the task.\<close>

fun applyUpdate :: "(string \<Rightarrow> string) \<Rightarrow> (string \<Rightarrow> string) \<Rightarrow> update \<Rightarrow> ChatUI \<times> bool
    \<Rightarrow> ChatUI \<times> bool" where
  "applyUpdate filt getText (DeltaUpdate delta) (ui, isFirst) =
     (appendDelta getText delta
        (if isFirst
         then AppendToChatPlain ''Assistant'' ''[yellow]''
                (ui\<lparr>chatHistory := TrimSuffix (getText (chatHistory ui)) newline\<rparr>)
         else ui),
      False)"
| "applyUpdate filt getText (SystemErrorUpdate msg) (ui, isFirst) =
     (AppendToChatPlain ''System'' msg ui, isFirst)"
| "applyUpdate filt getText (FinalUpdate finalResponse) (ui, isFirst) =
     (finalizeAssistantMessage filt getText
        (StopLoading (AddMessage ''assistant'' finalResponse ui)),
      isFirst)"
| "applyUpdate filt getText StopLoadingCall (ui, isFirst) = (StopLoading ui, isFirst)"

fun applyUpdates :: "(string \<Rightarrow> string) \<Rightarrow> (string \<Rightarrow> string) \<Rightarrow> update list
    \<Rightarrow> ChatUI \<times> bool \<Rightarrow> ChatUI \<times> bool" where
  "applyUpdates filt getText [] st = st"
| "applyUpdates filt getText (u # us) st =
     applyUpdates filt getText us (applyUpdate filt getText u st)"

text \<open>
  \<^verbatim>\<open>handleInput\<close> for a request that is answered with status 200 and the lines
  \<open>lines\<close>.  The updates run in the order in which the task handed them over, and each
  reads the accumulator when it runs; here they run once the task has written all of
  it.  The conversation log does not depend on when they run, since the final update
  carries \<^verbatim>\<open>finalResponse\<close> with it.
\<close>

definition handleInput :: "(string \<Rightarrow> string) \<Rightarrow> (string \<Rightarrow> string)
    \<Rightarrow> (string \<Rightarrow> string + CompletionResponse) \<Rightarrow> string \<Rightarrow> string list \<Rightarrow> read_end
    \<Rightarrow> ChatUI \<Rightarrow> ChatUI" where
  "handleInput filt getText unmarshal input lines ending ui =
     (let ui1 = AppendToChatPlain ''Assistant'' []
                  (StartLoading (AppendToChat filt ''You'' input (AddMessage ''user'' input ui)))
      in (case streamTask unmarshal lines ending of
            (acc, q) \<Rightarrow> fst (applyUpdates filt getText q (ui1\<lparr>assistantText := acc\<rparr>, True))))"

section \<open>Auxiliary notions and examples\<close>

text \<open>The messages that an update appends to the conversation log.\<close>

fun logOf :: "update \<Rightarrow> Message list" where
  "logOf (FinalUpdate finalResponse) = [\<lparr>Role = ''assistant'', Content = finalResponse\<rparr>]"
| "logOf u = []"

text \<open>The messages of the calls of \<^verbatim>\<open>appendSystemError\<close> among the updates.\<close>

fun errorNotices :: "update list \<Rightarrow> string list" where
  "errorNotices [] = []"
| "errorNotices (SystemErrorUpdate msg # us) = msg # errorNotices us"
| "errorNotices (u # us) = errorNotices us"

text \<open>
  An example stream: a content delta, a line that is not JSON, a second content delta.
  \<open>exampleUnmarshal\<close> tabulates what \<^verbatim>\<open>json.Unmarshal\<close> returns for the payloads of
  these three lines: the two chunks, and the error of the decoder for \<^verbatim>\<open>{not json}\<close>.
\<close>

definition exampleStream :: "string list" where
  \<open>exampleStream =
     [''data: {"choices":[{"delta":{"content":"Hel"}}]}\<newline>'',
      ''data: {not json}\<newline>'',
      ''data: {"choices":[{"delta":{"content":"lo"}}]}\<newline>'']\<close>

definition exampleUnmarshal :: "string \<Rightarrow> string + CompletionResponse" where
  \<open>exampleUnmarshal jsonStr =
     (if jsonStr = ''{"choices":[{"delta":{"content":"Hel"}}]}'' then Inr \<lparr>Choices = [''Hel'']\<rparr>
      else if jsonStr = ''{"choices":[{"delta":{"content":"lo"}}]}'' then Inr \<lparr>Choices = [''lo'']\<rparr>
      else Inl ''invalid character 'n' looking for beginning of object key string'')\<close>

section \<open>The accumulator and the conversation log\<close>

lemma streamLoop_acc:
  "fst (streamLoop u lines ending (acc, q))
   = acc @ concat (contentDeltas (map (classify u) lines))"
proof (induction lines arbitrary: acc q)
  case Nil
  then show ?case by (cases ending) simp_all
next
  case (Cons line rest)
  then show ?case by (cases "classify u line") simp_all
qed

lemma streamLoop_log:
  "concat (map logOf (snd (streamLoop u lines ending (acc, q)))) = concat (map logOf q)"
proof (induction lines arbitrary: acc q)
  case Nil
  then show ?case by (cases ending) simp_all
next
  case (Cons line rest)
  then show ?case by (cases "classify u line") simp_all
qed

lemma applyUpdate_messages:
  "messages (fst (applyUpdate filt getText u st)) = messages (fst st) @ logOf u"
  by (cases u; cases st)
     (simp_all add: appendDelta_def AppendToChatPlain_def finalizeAssistantMessage_def
        StopLoading_def AddMessage_def split: prod.splits)

lemma applyUpdates_messages:
  "messages (fst (applyUpdates filt getText q st))
   = messages (fst st) @ concat (map logOf q)"
  by (induction q arbitrary: st) (simp_all add: applyUpdate_messages)

text \<open>A content delta is never the empty string: the loop tests for it.\<close>

lemma contentDeltas_nonempty: "[] \<notin> set (contentDeltas (map (classify u) lines))"
proof (induction lines)
  case Nil
  then show ?case by simp
next
  case (Cons line rest)
  show ?case
  proof (cases "classify u line")
    case (ContentDelta d)
    then have "d \<noteq> []"
      by (auto simp: classify_def Let_def split: if_splits sum.splits list.splits)
    with ContentDelta Cons show ?thesis by simp
  qed (use Cons in simp_all)
qed

lemma concat_contentDeltas_Nil:
  "concat (contentDeltas (map (classify u) lines)) = []
   \<longleftrightarrow> contentDeltas (map (classify u) lines) = []"
  using contentDeltas_nonempty[of u lines]
  by (cases "contentDeltas (map (classify u) lines)") auto

text \<open>
  C1.  Whatever lines the response consists of, the accumulator that the task snapshots
  after the loop is the concatenation, in order, of the content deltas of the stream;
  and the conversation log of the turn is the log before it, the user message, and,
  when there was a content delta, one assistant message whose content is that same
  concatenation.
\<close>

theorem accumulated_deltas_logged:
  "fst (streamTask unmarshal lines ending)
     = concat (contentDeltas (map (classify unmarshal) lines))
   \<and> messages (handleInput filt getText unmarshal input lines ending ui)
     = messages ui @ [\<lparr>Role = ''user'', Content = input\<rparr>]
       @ (if contentDeltas (map (classify unmarshal) lines) = [] then []
          else [\<lparr>Role = ''assistant'',
                 Content = concat (contentDeltas (map (classify unmarshal) lines))\<rparr>])"
proof -
  obtain acc q where lq: "streamLoop unmarshal lines ending ([], []) = (acc, q)"
    by (cases "streamLoop unmarshal lines ending ([], [])")
  have acc: "acc = concat (contentDeltas (map (classify unmarshal) lines))"
    using streamLoop_acc[of unmarshal lines ending "[]" "[]"] lq by simp
  have q: "concat (map logOf q) = []"
    using streamLoop_log[of unmarshal lines ending "[]" "[]"] lq by simp
  have task: "streamTask unmarshal lines ending = (acc, q @ endOfStream acc)"
    by (simp add: streamTask_def lq)
  have m0: "messages (AppendToChatPlain ''Assistant'' []
               (StartLoading (AppendToChat filt ''You'' input (AddMessage ''user'' input ui))))
            = messages ui @ [\<lparr>Role = ''user'', Content = input\<rparr>]"
    by (simp add: AppendToChatPlain_def StartLoading_def AppendToChat_def AddMessage_def)
  have e: "concat (map logOf (endOfStream acc))
           = (if acc = [] then [] else [\<lparr>Role = ''assistant'', Content = acc\<rparr>])"
    by (simp add: endOfStream_def)
  have "messages (handleInput filt getText unmarshal input lines ending ui)
        = messages ui @ [\<lparr>Role = ''user'', Content = input\<rparr>]
          @ (if acc = [] then [] else [\<lparr>Role = ''assistant'', Content = acc\<rparr>])"
    by (simp add: handleInput_def task applyUpdates_messages m0 q e)
  then show ?thesis
    using acc task concat_contentDeltas_Nil[of unmarshal lines] by simp
qed

section \<open>The renderer is a function of the text\<close>

lemma Reset_const:
  "Reset p = \<lparr>inBold = False, inItalic = False, inCode = False, inQuote = False,
              inList = False, buf = []\<rparr>"
  by (cases p) (simp add: Reset_def)

text \<open>
  C9.  The output of \<^verbatim>\<open>RenderMarkdown\<close> does not depend on the state in which the
  parser is when it is called, since the call starts with \<^verbatim>\<open>Reset\<close>; so a second call
  on the same text, made with the parser that the first call left behind, returns the
  same bytes.
\<close>

theorem RenderMarkdown_pure:
  "fst (RenderMarkdown filt p text) = fst (RenderMarkdown filt p' text)
   \<and> fst (RenderMarkdown filt (snd (RenderMarkdown filt p text)) text)
     = fst (RenderMarkdown filt p text)"
  by (simp add: RenderMarkdown_def Reset_const)

section \<open>The end of the stream\<close>


section \<open>A line that is not JSON\<close>

lemma classify_not_json:
  "unmarshal ''{not json}'' = Inl err
   \<Longrightarrow> classify unmarshal ''data: {not json}\<newline>'' = ParseError err"
  by (simp add: classify_def HasPrefix_def TrimPrefix_def TrimSpace_def asciiSpace_def
        unicodeSpaces_def)

text \<open>
  C5, as the code has it.  For a stream of a content-delta line, the line
  \<^verbatim>\<open>data: {not json}\<close> and a second content-delta line, the loop goes on to the end of
  the stream with the two deltas accumulated in order, and with three updates handed to
  the display: the first delta, the notice \<^verbatim>\<open>JSON parse error: ...\<close> with the text of
  the decoder's error, and the second delta.
\<close>

theorem malformed_chunk_skipped_and_reported:
  assumes "classify unmarshal l1 = ContentDelta d1"
    and "unmarshal ''{not json}'' = Inl err"
    and "classify unmarshal l3 = ContentDelta d3"
  shows "streamLoop unmarshal [l1, ''data: {not json}\<newline>'', l3] ending ([], [])
         = streamLoop unmarshal [] ending
             (d1 @ d3, [DeltaUpdate d1, SystemErrorUpdate (''JSON parse error: '' @ err),
                        DeltaUpdate d3])"
  using assms classify_not_json[of unmarshal err] by simp

lemmas stream_eval = exampleStream_def exampleUnmarshal_def classify_def HasPrefix_def
  TrimPrefix_def TrimSpace_def asciiSpace_def unicodeSpaces_def

lemma exampleStream_first:
  "classify exampleUnmarshal (exampleStream ! 0) = ContentDelta ''Hel''"
  by (simp add: stream_eval)

lemma exampleStream_third:
  "classify exampleUnmarshal (exampleStream ! 2) = ContentDelta ''lo''"
  by (simp add: stream_eval)

text \<open>The example stream, read to its end: \<open>Hello\<close> is accumulated, and the notice is
  the second of three updates.\<close>

theorem malformed_chunk_witness:
  "streamLoop exampleUnmarshal exampleStream EOF ([], [])
   = (''Hello'',
      [DeltaUpdate ''Hel'',
       SystemErrorUpdate
         ''JSON parse error: invalid character 'n' looking for beginning of object key string'',
       DeltaUpdate ''lo''])"
proof -
  have u: "exampleUnmarshal ''{not json}''
           = Inl ''invalid character 'n' looking for beginning of object key string''"
    by (simp add: exampleUnmarshal_def)
  have s: "exampleStream = [exampleStream ! 0, ''data: {not json}\<newline>'', exampleStream ! 2]"
    by (simp add: exampleStream_def)
  show ?thesis
    using malformed_chunk_skipped_and_reported[OF exampleStream_first u exampleStream_third,
            of EOF] s
    by simp
qed

text \<open>
  Against C5 as stated: for the example stream, the updates of the task contain an error
  notice for the malformed line, where the claim has none surfaced.
\<close>

theorem malformed_chunk_error_surfaced:
  "errorNotices (snd (streamTask exampleUnmarshal exampleStream EOF))
   = [''JSON parse error: invalid character 'n' looking for beginning of object key string'']"
  by (simp add: streamTask_def endOfStream_def stream_eval)

section \<open>Runs of empty lines\<close>

text \<open>The output is only ever appended to.\<close>

lemma renderLine_out:
  "renderLine filt pm prev line (p, out)
   = (case renderLine filt pm prev line (p, []) of (p', out') \<Rightarrow> (p', out @ out'))"
  by (simp add: renderLine_def Let_def split: option.splits)

lemma renderLines_out:
  "renderLines sk pm filt prev ls (p, out, e)
   = (case renderLines sk pm filt prev ls (p, [], e) of
        (p', out', e') \<Rightarrow> (p', out @ out', e'))"
proof (induction ls arbitrary: prev p out e)
  case Nil
  then show ?case by simp
next
  case (Cons line rest)
  show ?case
  proof (cases "TrimSpace line = [] \<and> e \<and> sk")
    case True
    then show ?thesis using Cons.IH[of "Some line" p out e] by simp
  next
    case False
    obtain p1 o1 where r1: "renderLine filt pm prev line (p, []) = (p1, o1)"
      by (cases "renderLine filt pm prev line (p, [])")
    then have r2: "renderLine filt pm prev line (p, out) = (p1, out @ o1)"
      using renderLine_out[of filt pm prev line p out] by simp
    obtain p2 o2 e2 where r3:
      "renderLines sk pm filt (Some line) rest (p1, [], TrimSpace line = []) = (p2, o2, e2)"
      by (cases "renderLines sk pm filt (Some line) rest (p1, [], TrimSpace line = [])")
    have a: "renderLines sk pm filt (Some line) rest (p1, out @ o1, TrimSpace line = [])
             = (p2, out @ o1 @ o2, e2)"
      using Cons.IH[of "Some line" p1 "out @ o1" "TrimSpace line = []"] r3 by simp
    have b: "renderLines sk pm filt (Some line) rest (p1, o1, TrimSpace line = [])
             = (p2, o1 @ o2, e2)"
      using Cons.IH[of "Some line" p1 o1 "TrimSpace line = []"] r3 by simp
    from False show ?thesis by (auto simp: r1 r2 a b)
  qed
qed

text \<open>The loop over a text in two parts.\<close>

lemma renderLines_append:
  "renderLines sk pm filt prev (xs @ ys) st
   = renderLines sk pm filt (if xs = [] then prev else Some (last xs)) ys
       (renderLines sk pm filt prev xs st)"
proof (induction xs arbitrary: prev st)
  case Nil
  then show ?case by simp
next
  case (Cons x xs)
  obtain p out e where st: "st = (p, out, e)" by (cases st)
  show ?case
    unfolding st using Cons.IH by (auto split: prod.splits)
qed

lemma renderLines_last_nonempty:
  assumes "TrimSpace l \<noteq> []"
  shows "snd (snd (renderLines sk pm filt prev (pre @ [l]) st)) = False"
proof -
  obtain p out e where s: "renderLines sk pm filt prev pre st = (p, out, e)"
    by (cases "renderLines sk pm filt prev pre st")
  show ?thesis
    using assms by (simp add: renderLines_append s split: prod.splits)
qed

lemma clear_runs:
  "(if inQuote (if inList p then p\<lparr>inList := False\<rparr> else p)
    then (if inList p then p\<lparr>inList := False\<rparr> else p)\<lparr>inQuote := False\<rparr>
    else (if inList p then p\<lparr>inList := False\<rparr> else p))
   = p\<lparr>inList := False, inQuote := False\<rparr>"
  by (cases p) simp

lemma renderLine_empty:
  "TrimSpace line = [] \<Longrightarrow>
   renderLine filt pm prev line (p, out)
   = (p\<lparr>inList := False, inQuote := False\<rparr>, out @ newline)"
  by (simp add: renderLine_def HasPrefix_def Let_def clear_runs)

lemma two_empty_lines:
  assumes "TrimSpace l1 = []" "TrimSpace l2 = []"
  shows "renderLines True pm filt prev [l1, l2] (p, out, False)
         = (p\<lparr>inList := False, inQuote := False\<rparr>, out @ newline, True)"
  using assms by (simp add: renderLine_empty)

lemma blank_run:
  assumes "TrimSpace l \<noteq> []" "TrimSpace l1 = []" "TrimSpace l2 = []"
  shows "renderLines True pm filt None (pre @ [l, l1, l2] @ post) st
         = (case renderLines True pm filt None (pre @ [l]) st of
              (p1, out1, e1) \<Rightarrow>
                (case renderLines True pm filt (Some l2) post
                        (p1\<lparr>inList := False, inQuote := False\<rparr>, [], True) of
                   (p2, out2, e2) \<Rightarrow> (p2, out1 @ newline @ out2, e2)))"
proof -
  obtain p1 out1 e1 where s1: "renderLines True pm filt None (pre @ [l]) st = (p1, out1, e1)"
    by (cases "renderLines True pm filt None (pre @ [l]) st")
  have e1: "e1 = False"
    using renderLines_last_nonempty[OF assms(1), of True pm filt None pre st] s1 by simp
  have split: "pre @ [l, l1, l2] @ post = (pre @ [l]) @ ([l1, l2] @ post)" by simp
  have "renderLines True pm filt None (pre @ [l, l1, l2] @ post) st
        = renderLines True pm filt (Some l2) post
            (renderLines True pm filt (Some l) [l1, l2] (p1, out1, False))"
    unfolding split
    by (simp only: renderLines_append[of True pm filt _ "pre @ [l]"]
          renderLines_append[of True pm filt _ "[l1, l2]"] s1 e1) simp
  also have "\<dots> = renderLines True pm filt (Some l2) post
                     (p1\<lparr>inList := False, inQuote := False\<rparr>, out1 @ newline, True)"
    by (simp only: two_empty_lines[OF assms(2,3)])
  also have "\<dots> = (case renderLines True pm filt (Some l2) post
                        (p1\<lparr>inList := False, inQuote := False\<rparr>, [], True) of
                   (p2, out2, e2) \<Rightarrow> (p2, out1 @ newline @ out2, e2))"
    using renderLines_out[of True pm filt "Some l2" post _ "out1 @ newline" True]
    by (simp split: prod.splits)
  finally show ?thesis by (simp add: s1)
qed

text \<open>
  C8, as the code has it.  Let two consecutive lines that are empty once trimmed follow
  a line that is not.  Then the output of \<^verbatim>\<open>RenderMarkdown\<close> of \<^verbatim>\<open>main.go\<close> is the
  output for the text up to that line, one newline for the run, and the output for the
  lines after the run, rendered with the list and quote flags cleared.  The output of
  \<^verbatim>\<open>RenderPartial\<close> has the same form: one blank line for the run there too.
\<close>

theorem blank_run_collapses_to_one:
  assumes "Split (CHR 0x0A) text = pre @ [l, l1, l2] @ post"
    and "TrimSpace l \<noteq> []" and "TrimSpace l1 = []" and "TrimSpace l2 = []"
  shows "RenderMarkdown filt p text
         = (case renderLines True False filt None (pre @ [l]) (Reset p, [], True) of
              (p1, out1, e1) \<Rightarrow>
                (case renderLines True False filt (Some l2) post
                        (p1\<lparr>inList := False, inQuote := False\<rparr>, [], True) of
                   (p2, out2, e2) \<Rightarrow> (out1 @ newline @ out2, p2)))
       \<and> RenderPartial filt p text
         = (case renderLines True True filt None (pre @ [l]) (Reset p, [], True) of
              (p1, out1, e1) \<Rightarrow>
                (case renderLines True True filt (Some l2) post
                        (p1\<lparr>inList := False, inQuote := False\<rparr>, [], True) of
                   (p2, out2, e2) \<Rightarrow> (out1 @ newline @ out2, p2)))"
proof -
  have run: "renderLines True pm filt None (Split (CHR 0x0A) text) (Reset p, [], True)
             = (case renderLines True pm filt None (pre @ [l]) (Reset p, [], True) of
                  (p1, out1, e1) \<Rightarrow>
                    (case renderLines True pm filt (Some l2) post
                            (p1\<lparr>inList := False, inQuote := False\<rparr>, [], True) of
                       (p2, out2, e2) \<Rightarrow> (p2, out1 @ newline @ out2, e2)))" for pm
    by (simp only: assms(1) blank_run[OF assms(2,3,4)])
  show ?thesis
    unfolding RenderMarkdown_def RenderPartial_def renderInternal_def run
    by (simp split: prod.splits)
qed

lemmas render_eval = RenderMarkdown_def RenderPartial_def renderInternal_def Split_def
  Reset_def renderLine_def markdownLine_def HasPrefix_def TrimSpace_def unicodeSpaces_def
  asciiSpace_def filteredASCII_def newline_def tableRow_def NewMarkdownParser_def

text \<open>The text of the lines \<open>a\<close>, two empty lines and \<open>b\<close>, in both renderers.\<close>

theorem blank_run_witness:
  "RenderMarkdown filteredASCII NewMarkdownParser ''a\<newline>\<newline>\<newline>b''
     = (''a\<newline>\<newline>b\<newline>'', NewMarkdownParser\<lparr>buf := ''b''\<rparr>)
   \<and> RenderPartial filteredASCII NewMarkdownParser ''a\<newline>\<newline>\<newline>b''
     = (''a\<newline>\<newline>b\<newline>'', NewMarkdownParser\<lparr>buf := ''b''\<rparr>)"
proof -
  have s: "Split (CHR 0x0A) ''a\<newline>\<newline>\<newline>b'' = [] @ [''a'', [], []] @ [''b'']"
    by (simp add: Split_def)
  have t: "TrimSpace ''a'' \<noteq> []" "TrimSpace [] = []"
    by (simp_all add: TrimSpace_def asciiSpace_def unicodeSpaces_def HasPrefix_def)
  show ?thesis
    using blank_run_collapses_to_one[OF s t(1) t(2) t(2), of filteredASCII NewMarkdownParser]
    by (simp add: render_eval)
qed

text \<open>
  Against C8 as stated: in partial mode the two empty lines between \<open>a\<close> and \<open>b\<close> leave
  one blank line, not none; in the full mode of \<^verbatim>\<open>main.go\<close> two empty lines at the
  start of the text leave none, not one; and the full mode of the later revision
  (\<^verbatim>\<open>renderInternal\<close> with \<^verbatim>\<open>partial = false\<close>) keeps both.
\<close>

theorem blank_run_counterexample:
  "fst (RenderPartial filteredASCII NewMarkdownParser ''a\<newline>\<newline>\<newline>b'')
     = ''a\<newline>\<newline>b\<newline>''
   \<and> fst (RenderMarkdown filteredASCII NewMarkdownParser ''\<newline>\<newline>b'') = ''b\<newline>''
   \<and> fst (renderInternal filteredASCII NewMarkdownParser ''a\<newline>\<newline>\<newline>b'' False)
     = ''a\<newline>\<newline>\<newline>b\<newline>''"
  by (simp add: render_eval)

section \<open>Where the code departs from its description\<close>

text \<open>A byte that follows a backslash changes nothing: it is not written and toggles
  nothing.\<close>

lemma escaped_byte_skipped:
  "scanLine pm (Some (CHR 0x5C)) (c # cs) st = scanLine pm (Some c) cs st"
  by (cases st) simp

text \<open>In partial mode \<^verbatim>\<open>inCode\<close> never changes.\<close>

lemma scanLine_partial_inCode:
  "fst (scanLine True prev line (code, active, b)) = code"
proof (induction line arbitrary: prev code active b rule: length_induct)
  case (1 line)
  show ?case
  proof (cases line)
    case Nil
    then show ?thesis by simp
  next
    case (Cons c cs)
    have tl: "length (tl cs) < length line" using Cons by (cases cs) simp_all
    have cs: "length cs < length line" using Cons by simp
    show ?thesis
      unfolding Cons using 1[rule_format, OF tl] 1[rule_format, OF cs] by simp
  qed
qed

lemma partial_keeps_inCode: "inCode (markdownLine True p line) = inCode p"
proof -
  obtain code active b where
    s: "scanLine True None line (inCode p, False, []) = (code, active, b)"
    by (cases "scanLine True None line (inCode p, False, [])")
  then have "code = inCode p"
    using scanLine_partial_inCode[of None line "inCode p" False "[]"] by simp
  then show ?thesis by (simp add: markdownLine_def s)
qed

text \<open>
  C2.  The line \<^verbatim>\<open>a\*b*c*\<close>: the backslash is copied to the output and the \<^verbatim>\<open>*\<close>
  after it is skipped, so it is not in the output at all; the pair around \<^verbatim>\<open>c\<close>
  toggles italics.
\<close>

theorem escaped_marker_dropped:
  "buf (markdownLine False (Reset p) (''a'' @ [CHR 0x5C] @ ''*b*c*''))
   = ''a'' @ [CHR 0x5C] @ ''b[::i][white]c[::-][white]''"
  by (simp add: markdownLine_def Reset_def HasPrefix_def)

text \<open>
  C3.  A quote line, two list lines with a dash and a list line with a star: the
  prefix that the renderer writes to the buffer is erased when \<^verbatim>\<open>markdownLine\<close>
  resets the buffer, and the output lines are the rendered remainders alone.
\<close>

theorem prefix_lost:
  "fst (RenderMarkdown filteredASCII p ''> hi'') = ''hi\<newline>''
   \<and> fst (RenderMarkdown filteredASCII p ''- one\<newline>- two'') = ''one\<newline>two\<newline>''
   \<and> fst (RenderMarkdown filteredASCII p ''* one'') = ''one\<newline>''"
  by (simp add: render_eval)

text \<open>
  C4.  The two lines \<^verbatim>\<open>| a | b |\<close> and \<^verbatim>\<open>| 1 | 2 |\<close>: the second is rendered as two
  bold cells, and nothing at all is written for the first.
\<close>

theorem table_first_row_lost:
  "fst (RenderMarkdown filt p ''| a | b |\<newline>| 1 | 2 |'')
   = ''[::b]1[::-] [::b]2[::-] \<newline>''"
  by (simp add: RenderMarkdown_def Split_def Reset_def renderLine_def HasPrefix_def
        TrimSpace_def unicodeSpaces_def asciiSpace_def newline_def tableRow_def)

text \<open>
  C6.  The line of \<^verbatim>\<open>ab\<close> between two backticks.  In full mode the first backtick opens
  the span and the byte after it is stepped over; the second backtick is copied to the
  output and \<^verbatim>\<open>inCode\<close> stays set.  In partial mode both backticks are copied and
  \<^verbatim>\<open>inCode\<close> stays clear.
\<close>

theorem backtick_never_closed:
  "markdownLine False (Reset p) ''`ab`'' = (Reset p)\<lparr>inCode := True, buf := ''[::r]b`[::-]''\<rparr>
   \<and> markdownLine True (Reset p) ''`ab`'' = (Reset p)\<lparr>buf := ''`ab`''\<rparr>"
  by (simp add: markdownLine_def Reset_def HasPrefix_def)

text \<open>
  C10.  The view shows the user's line and an assistant text of two lines, \<open>a\<close> and
  \<open>b\<close>; the accumulator has grown to \<open>a\<close>, newline, \<open>bc\<close>.  \<^verbatim>\<open>appendDelta\<close> removes
  only the line \<open>b\<close>: the old first line of the assistant text stays, followed by the
  whole new text.
\<close>

theorem appendDelta_keeps_stale_line:
  "appendDeltaText ''You: hi\<newline>Assistant: a\<newline>b'' ''a\<newline>bc''
   = ''You: hi\<newline>Assistant: a\<newline>[blue]Assistant:[-] [yellow]a\<newline>bc''"
  by (simp add: appendDeltaText_def Split_def assistantPrefix_def newline_def)

end
